theory Spec2Isabelle
  imports Main
begin

section \<open>Values, errors and the interpreter\<close>

text \<open>
  The module \<^verbatim>\<open>yival/schemas/experiment_config.py\<close> declares plain dataclasses; its only
  behaviour is \<^verbatim>\<open>WrapperVariation.instantiate\<close>, run once by \<^verbatim>\<open>__post_init__\<close>.

  A declared payload (\<^verbatim>\<open>value: Any\<close>) is plain data, as a configuration file yields it:
  \<^verbatim>\<open>None\<close>, a bool, an int, a float, text, a list, or a mapping with text keys (the keyword
  arguments of a registered constructor). Text is a list of code points below 256. Floats
  are values of a type \<open>'f\<close> that the interpreter owns.
\<close>

datatype 'f payload =
    PNone
  | PBool bool
  | PInt int
  | PFloat 'f
  | PStr string
  | PList "'f payload list"
  | PDict "(string \<times> 'f payload) list"

text \<open>
  What \<^verbatim>\<open>instantiate\<close> returns: a primitive value, or an instance \<open>'o\<close> made by a
  constructor of \<^verbatim>\<open>CLASS_REGISTRY\<close>.
\<close>

datatype ('f, 'o) py_value = Plain "'f payload" | Instance 'o

text \<open>
  Exceptions by class. The module words one message itself (line 56); the wording of an
  exception raised inside the interpreter is not part of the model.
\<close>

datatype message = Text string | Interpreter_text

datatype py_error =
    ValueError message
  | TypeError message
  | OverflowError message
  | NameError message
  | Exception string message

text \<open>
  The parts of the interpreter that the module calls and that are taken as given: binary
  floating point, the rendering of a payload other than text by \<^verbatim>\<open>str()\<close>, and the cap on
  the number of digits in a conversion between text and int
  (\<^verbatim>\<open>sys.get_int_max_str_digits()\<close>; 0 switches the cap off).
\<close>

record 'f runtime =
  float_of_text :: "string \<Rightarrow> 'f option"
  float_of_integer :: "int \<Rightarrow> 'f option"
  truncate_float :: "'f \<Rightarrow> py_error + int"
  float_is_true :: "'f \<Rightarrow> bool"
  text_of_other :: "'f payload \<Rightarrow> py_error + string"
  max_str_digits :: nat

subsection \<open>The four primitive constructors\<close>

text \<open>\<^verbatim>\<open>bool(v)\<close>: truth-value testing; it never raises on plain data.\<close>

fun truthy :: "'f runtime \<Rightarrow> 'f payload \<Rightarrow> bool" where
  "truthy rt PNone = False"
| "truthy rt (PBool b) = b"
| "truthy rt (PInt i) = (i \<noteq> 0)"
| "truthy rt (PFloat f) = float_is_true rt f"
| "truthy rt (PStr s) = (s \<noteq> [])"
| "truthy rt (PList xs) = (xs \<noteq> [])"
| "truthy rt (PDict kvs) = (kvs \<noteq> [])"

definition py_bool :: "'f runtime \<Rightarrow> 'f payload \<Rightarrow> py_error + 'f payload" where
  "py_bool rt v = Inr (PBool (truthy rt v))"

text \<open>\<^verbatim>\<open>str(v)\<close>: text is returned as it is; anything else is rendered by the interpreter.\<close>

fun py_str :: "'f runtime \<Rightarrow> 'f payload \<Rightarrow> py_error + 'f payload" where
  "py_str rt (PStr s) = Inr (PStr s)"
| "py_str rt v = (case text_of_other rt v of Inl e \<Rightarrow> Inl e | Inr s \<Rightarrow> Inr (PStr s))"

text \<open>
  \<^verbatim>\<open>int(s)\<close> on text, base 10: whitespace around the number is skipped, one sign may come
  first, then decimal digits, where single underscores may stand between digits. The
  whitespace that \<^verbatim>\<open>int()\<close> skips is, below code point 256, 9 to 13, 32, 133 and 160 (the
  separators 28 to 31 are not skipped). More than 640 digits are refused when they exceed
  the cap.
\<close>

definition py_isspace :: "char \<Rightarrow> bool" where
  "py_isspace c =
     (let n = (of_char c :: nat)
      in (9 \<le> n \<and> n \<le> 13) \<or> n = 32 \<or> n = 133 \<or> n = 160)"

definition is_digit :: "char \<Rightarrow> bool" where
  "is_digit c = (48 \<le> (of_char c :: nat) \<and> (of_char c :: nat) \<le> 57)"

definition digit_value :: "char \<Rightarrow> nat" where
  "digit_value c = of_char c - 48"

fun scan_digits :: "bool \<Rightarrow> nat \<Rightarrow> nat \<Rightarrow> string \<Rightarrow> (nat \<times> nat) option" where
  "scan_digits prev_underscore digits acc [] =
     (if prev_underscore \<or> digits = 0 then None else Some (digits, acc))"
| "scan_digits prev_underscore digits acc (c # cs) =
     (if c = CHR ''_'' then
        (if prev_underscore then None else scan_digits True digits acc cs)
      else if is_digit c then scan_digits False (Suc digits) (10 * acc + digit_value c) cs
      else None)"

definition exceeds_digit_cap :: "'f runtime \<Rightarrow> nat \<Rightarrow> bool" where
  "exceeds_digit_cap rt digits =
     (640 < digits \<and> 0 < max_str_digits rt \<and> max_str_digits rt < digits)"

definition int_of_text :: "'f runtime \<Rightarrow> string \<Rightarrow> py_error + int" where
  "int_of_text rt s =
     (let t = dropWhile py_isspace s;
          negative = (t \<noteq> [] \<and> hd t = CHR ''-'');
          u = (if t \<noteq> [] \<and> (hd t = CHR ''+'' \<or> hd t = CHR ''-'') then tl t else t);
          body = rev (dropWhile py_isspace (rev u))
      in if body \<noteq> [] \<and> hd body = CHR ''_'' then Inl (ValueError Interpreter_text)
         else case scan_digits False 0 0 body of
                None \<Rightarrow> Inl (ValueError Interpreter_text)
              | Some (digits, n) \<Rightarrow>
                  if exceeds_digit_cap rt digits then Inl (ValueError Interpreter_text)
                  else Inr (if negative then - int n else int n))"

text \<open>
  \<^verbatim>\<open>int(v)\<close>: a bool counts as 0 or 1, a float is truncated by the interpreter, text is
  parsed; \<^verbatim>\<open>None\<close>, a list and a mapping raise \<^verbatim>\<open>TypeError\<close>.
\<close>

fun py_int :: "'f runtime \<Rightarrow> 'f payload \<Rightarrow> py_error + 'f payload" where
  "py_int rt PNone = Inl (TypeError Interpreter_text)"
| "py_int rt (PBool b) = Inr (PInt (if b then 1 else 0))"
| "py_int rt (PInt i) = Inr (PInt i)"
| "py_int rt (PFloat f) = (case truncate_float rt f of Inl e \<Rightarrow> Inl e | Inr i \<Rightarrow> Inr (PInt i))"
| "py_int rt (PStr s) = (case int_of_text rt s of Inl e \<Rightarrow> Inl e | Inr i \<Rightarrow> Inr (PInt i))"
| "py_int rt (PList xs) = Inl (TypeError Interpreter_text)"
| "py_int rt (PDict kvs) = Inl (TypeError Interpreter_text)"

text \<open>
  \<^verbatim>\<open>float(v)\<close>: the interpreter converts an int (\<^verbatim>\<open>OverflowError\<close> when it is too large)
  and parses text (\<^verbatim>\<open>ValueError\<close> when it is malformed).
\<close>

fun py_float :: "'f runtime \<Rightarrow> 'f payload \<Rightarrow> py_error + 'f payload" where
  "py_float rt PNone = Inl (TypeError Interpreter_text)"
| "py_float rt (PBool b) =
     (case float_of_integer rt (if b then 1 else 0) of
        None \<Rightarrow> Inl (OverflowError Interpreter_text) | Some f \<Rightarrow> Inr (PFloat f))"
| "py_float rt (PInt i) =
     (case float_of_integer rt i of
        None \<Rightarrow> Inl (OverflowError Interpreter_text) | Some f \<Rightarrow> Inr (PFloat f))"
| "py_float rt (PFloat f) = Inr (PFloat f)"
| "py_float rt (PStr s) =
     (case float_of_text rt s of
        None \<Rightarrow> Inl (ValueError Interpreter_text) | Some f \<Rightarrow> Inr (PFloat f))"
| "py_float rt (PList xs) = Inl (TypeError Interpreter_text)"
| "py_float rt (PDict kvs) = Inl (TypeError Interpreter_text)"

text \<open>
  \<^verbatim>\<open>eval(src)\<close> inside \<^verbatim>\<open>instantiate\<close>. The module binds none of the names \<^verbatim>\<open>str\<close>,
  \<^verbatim>\<open>int\<close>, \<^verbatim>\<open>float\<close>, \<^verbatim>\<open>bool\<close>, so each resolves to the builtin constructor. No other
  expression is modelled (\<open>None\<close>): \<open>instantiate\<close> never passes one.
\<close>

definition py_eval :: "string \<Rightarrow> ('f runtime \<Rightarrow> 'f payload \<Rightarrow> py_error + 'f payload) option" where
  "py_eval src =
     (if src = ''str'' then Some py_str
      else if src = ''int'' then Some py_int
      else if src = ''float'' then Some py_float
      else if src = ''bool'' then Some py_bool
      else None)"

section \<open>WrapperVariation\<close>

text \<open>
  \<^verbatim>\<open>CLASS_REGISTRY\<close> maps a type name to a constructor called with keyword arguments. It
  is empty in the module and filled by the host application, so it is a parameter here.
\<close>

type_synonym 'f kwargs = "(string \<times> 'f payload) list"

type_synonym ('f, 'o) registry = "string \<rightharpoonup> ('f kwargs \<Rightarrow> py_error + 'o)"

text \<open>\<^verbatim>\<open>**self.value\<close>: only a mapping can be unpacked into keyword arguments.\<close>

fun unpack_kwargs :: "'f payload \<Rightarrow> py_error + 'f kwargs" where
  "unpack_kwargs (PDict kvs) = Inr kvs"
| "unpack_kwargs v = Inl (TypeError Interpreter_text)"

text \<open>
  A call of \<^verbatim>\<open>instantiate\<close> is recorded with what it ran besides the builtin conversion:
  the text handed to \<^verbatim>\<open>eval\<close> and the registered constructor invoked.
\<close>

datatype 'f event = Evaluated string | Constructed string "'f kwargs"

record ('f, 'o) run =
  effects :: "'f event list"
  outcome :: "py_error + ('f, 'o) py_value"

definition primitive_tags :: "string list" where
  "primitive_tags = [''str'', ''int'', ''float'', ''bool'']"

definition unsupported_message :: "string \<Rightarrow> string" where
  "unsupported_message value_type = ''Unsupported value_type: '' @ value_type"

definition instantiate ::
  "'f runtime \<Rightarrow> ('f, 'o) registry \<Rightarrow> string \<Rightarrow> 'f payload \<Rightarrow> ('f, 'o) run" where
  "instantiate rt CLASS_REGISTRY value_type v =
     (if value_type \<in> set primitive_tags then
        (case py_eval value_type of
           None \<Rightarrow> \<lparr>effects = [Evaluated value_type],
                     outcome = Inl (NameError Interpreter_text)\<rparr>
         | Some constructor \<Rightarrow>
             \<lparr>effects = [Evaluated value_type],
              outcome = (case constructor rt v of Inl e \<Rightarrow> Inl e | Inr p \<Rightarrow> Inr (Plain p))\<rparr>)
      else case CLASS_REGISTRY value_type of
        Some cls \<Rightarrow>
          (case unpack_kwargs v of
             Inl e \<Rightarrow> \<lparr>effects = [], outcome = Inl e\<rparr>
           | Inr kw \<Rightarrow>
               \<lparr>effects = [Constructed value_type kw],
                outcome = (case cls kw of Inl e \<Rightarrow> Inl e | Inr obj \<Rightarrow> Inr (Instance obj))\<rparr>)
      | None \<Rightarrow>
          \<lparr>effects = [],
           outcome = Inl (ValueError (Text (unsupported_message value_type)))\<rparr>)"

text \<open>
  The dataclass. \<^verbatim>\<open>instantiated_value\<close> is declared \<^verbatim>\<open>field(init=False)\<close>: the generated
  \<^verbatim>\<open>__init__\<close> takes \<^verbatim>\<open>value_type\<close>, \<^verbatim>\<open>value\<close> and \<^verbatim>\<open>variation_id\<close> (default \<^verbatim>\<open>None\<close>) only.
  The field \<^verbatim>\<open>value\<close> is named \<open>the_value\<close> here.
\<close>

record ('f, 'o) WrapperVariation =
  value_type :: string
  the_value :: "'f payload"
  instantiated_value :: "('f, 'o) py_value"
  variation_id :: "string option"

text \<open>
  \<^verbatim>\<open>WrapperVariation(value_type, value, variation_id)\<close>: \<^verbatim>\<open>__init__\<close> stores its arguments and
  calls \<^verbatim>\<open>__post_init__\<close>, which stores the result of \<^verbatim>\<open>instantiate()\<close>; an exception
  raised there ends the construction.
\<close>

definition WrapperVariation_init ::
  "'f runtime \<Rightarrow> ('f, 'o) registry \<Rightarrow> string \<Rightarrow> 'f payload \<Rightarrow> string option
     \<Rightarrow> py_error + ('f, 'o) WrapperVariation" where
  "WrapperVariation_init rt CLASS_REGISTRY vt v vid =
     (case outcome (instantiate rt CLASS_REGISTRY vt v) of
        Inl e \<Rightarrow> Inl e
      | Inr iv \<Rightarrow>
          Inr \<lparr>value_type = vt, the_value = v, instantiated_value = iv, variation_id = vid\<rparr>)"




section \<open>WrapperConfig\<close>

record ('f, 'o) WrapperConfig =
  name :: string
  variations :: "('f, 'o) WrapperVariation list"




section \<open>ExperimentConfig\<close>

text \<open>
  A dataclass without \<^verbatim>\<open>__post_init__\<close>. The configurations it refers to are defined in
  other modules and are opaque here: the dataset \<open>'d\<close>, wrapper configurations \<open>'w\<close>,
  evaluator configurations \<open>'ev\<close>, the output configuration \<open>'out\<close> and human rating
  configurations \<open>'h\<close>.
\<close>

record ('f, 'o, 'd, 'w, 'ev, 'out, 'h) ExperimentConfig =
  description :: string
  config_variations :: "('f, 'o) WrapperConfig list"
  dataset :: 'd
  wrapper_configs :: "'w list option"
  combinations_to_run :: "(string \<times> 'f payload) list option"
  evaluators :: "'ev list option"
  output_config :: "'out option"
  human_rating_configs :: "'h list"
  existing_experiment_path :: "string option"
  version :: "string option"
  output_parser :: "string option"
  metadata :: "'f kwargs"

text \<open>
  The generated \<^verbatim>\<open>__init__\<close>: three required arguments, then the optional ones. An omitted
  argument is \<open>None\<close>; \<^verbatim>\<open>human_rating_configs\<close> and \<^verbatim>\<open>metadata\<close> then get a fresh empty list
  and mapping (\<^verbatim>\<open>default_factory\<close>). Nothing is checked. The fields \<^verbatim>\<open>variations\<close> and
  \<^verbatim>\<open>output\<close> are named \<open>config_variations\<close> and \<open>output_config\<close> here.
\<close>

definition ExperimentConfig_init ::
  "string \<Rightarrow> ('f, 'o) WrapperConfig list \<Rightarrow> 'd \<Rightarrow> 'w list option
     \<Rightarrow> (string \<times> 'f payload) list option \<Rightarrow> 'ev list option \<Rightarrow> 'out option
     \<Rightarrow> 'h list option \<Rightarrow> string option \<Rightarrow> string option \<Rightarrow> string option
     \<Rightarrow> 'f kwargs option
     \<Rightarrow> py_error + ('f, 'o, 'd, 'w, 'ev, 'out, 'h) ExperimentConfig" where
  "ExperimentConfig_init descr vars ds wcs combos evs out hrcs path ver parser md =
     Inr \<lparr>description = descr, config_variations = vars, dataset = ds,
          wrapper_configs = wcs, combinations_to_run = combos, evaluators = evs,
          output_config = out,
          human_rating_configs = (case hrcs of None \<Rightarrow> [] | Some hs \<Rightarrow> hs),
          existing_experiment_path = path, version = ver, output_parser = parser,
          metadata = (case md of None \<Rightarrow> [] | Some m \<Rightarrow> m)\<rparr>"

section \<open>The notions of the specification\<close>

text \<open>
  The specification speaks of valid literals and their natural parse, of values that
  cannot be parsed, of falsy values, of a closed dispatch table and of rebuilding an object
  from its mapping. These are written out here, from its words, to be compared with the
  code.
\<close>

text \<open>The name of the type of a value (\<^verbatim>\<open>type(v).__name__\<close>).\<close>

definition type_name :: "'f payload \<Rightarrow> string" where
  "type_name v =
     (case v of PNone \<Rightarrow> ''NoneType'' | PBool b \<Rightarrow> ''bool'' | PInt i \<Rightarrow> ''int''
      | PFloat f \<Rightarrow> ''float'' | PStr s \<Rightarrow> ''str'' | PList xs \<Rightarrow> ''list''
      | PDict kvs \<Rightarrow> ''dict'')"

text \<open>
  An int literal is an optional sign followed by one or more decimal digits; its value is
  positional. A bool literal spells true or false.
\<close>

fun decimal :: "string \<Rightarrow> nat" where
  "decimal [] = 0"
| "decimal (d # ds) = digit_value d * 10 ^ length ds + decimal ds"

definition unsigned_literal :: "string \<Rightarrow> int option" where
  "unsigned_literal ds =
     (if ds \<noteq> [] \<and> list_all is_digit ds then Some (int (decimal ds)) else None)"

fun int_literal :: "string \<Rightarrow> int option" where
  "int_literal [] = None"
| "int_literal (c # cs) =
     (if c = CHR ''-'' then map_option uminus (unsigned_literal cs)
      else if c = CHR ''+'' then unsigned_literal cs
      else unsigned_literal (c # cs))"

definition bool_literal :: "string \<Rightarrow> bool option" where
  "bool_literal s =
     (if s = ''true'' \<or> s = ''True'' then Some True
      else if s = ''false'' \<or> s = ''False'' then Some False
      else None)"

text \<open>
  The natural parse of text as a primitive type, \<open>None\<close> when the text is no valid literal
  of it. Any text is a valid \<^verbatim>\<open>str\<close>; an int literal is valid within the interpreter's cap on
  digits; a float literal is what the interpreter's float parser accepts.
\<close>

definition natural_parse :: "'f runtime \<Rightarrow> string \<Rightarrow> string \<Rightarrow> 'f payload option" where
  "natural_parse rt t s =
     (if t = ''str'' then Some (PStr s)
      else if t = ''int'' then
        (if exceeds_digit_cap rt (length (filter is_digit s)) then None
         else map_option PInt (int_literal s))
      else if t = ''float'' then map_option PFloat (float_of_text rt s)
      else if t = ''bool'' then map_option PBool (bool_literal s)
      else None)"



text \<open>The falsy values: \<^verbatim>\<open>None\<close>, \<^verbatim>\<open>False\<close>, zero, and the empty text, list and mapping.\<close>

definition falsy :: "'f runtime \<Rightarrow> 'f payload \<Rightarrow> bool" where
  "falsy rt v =
     (case v of
        PNone \<Rightarrow> True
      | PBool b \<Rightarrow> b = False
      | PInt i \<Rightarrow> i = 0
      | PFloat f \<Rightarrow> float_is_true rt f = False
      | PStr s \<Rightarrow> length s = 0
      | PList xs \<Rightarrow> length xs = 0
      | PDict kvs \<Rightarrow> length kvs = 0)"

text \<open>A closed dispatch table: a fixed list of tags, each with its constructor.\<close>

definition dispatch_table ::
  "(string \<times> ('f runtime \<Rightarrow> 'f payload \<Rightarrow> py_error + 'f payload)) list" where
  "dispatch_table = [(''str'', py_str), (''int'', py_int), (''float'', py_float), (''bool'', py_bool)]"

definition closed_dispatch ::
  "string \<Rightarrow> 'f runtime \<Rightarrow> 'f payload \<Rightarrow> (py_error + ('f, 'o) py_value) option" where
  "closed_dispatch t rt v =
     (case map_of dispatch_table t of
        None \<Rightarrow> None
      | Some parser \<Rightarrow> Some (case parser rt v of Inl e \<Rightarrow> Inl e | Inr p \<Rightarrow> Inr (Plain p)))"




section \<open>Concrete inputs\<close>

text \<open>
  The registry as the module creates it (empty), a class \<open>Foo\<close> with the single
  parameter \<open>a\<close> whose instances keep their arguments, and a small interpreter for
  running the model: its floats are whole numbers, it parses no float text and renders
  nothing, and its cap on digits is 4300.
\<close>

definition empty_registry :: "(int, int kwargs) registry" where
  "empty_registry = Map.empty"

definition Foo :: "int kwargs \<Rightarrow> py_error + int kwargs" where
  "Foo kw = (if map fst kw = [''a''] then Inr kw else Inl (TypeError Interpreter_text))"

definition test_runtime :: "int runtime" where
  "test_runtime =
     \<lparr>float_of_text = (\<lambda>s. None), float_of_integer = (\<lambda>i. Some i),
      truncate_float = (\<lambda>f. Inr f), float_is_true = (\<lambda>f. f \<noteq> 0),
      text_of_other = (\<lambda>v. Inl (Exception ''NotImplementedError'' Interpreter_text)),
      max_str_digits = 4300\<rparr>"


section \<open>The int parser on literals and on foreign characters\<close>

lemma digit_not_special:
  "is_digit c \<Longrightarrow> \<not> py_isspace c \<and> c \<noteq> CHR ''_'' \<and> c \<noteq> CHR ''+'' \<and> c \<noteq> CHR ''-''"
  by (auto simp: is_digit_def py_isspace_def Let_def)

lemma sign_not_space: "\<not> py_isspace CHR ''+''" "\<not> py_isspace CHR ''-''"
  by (simp_all add: py_isspace_def)

lemma sign_not_digit: "\<not> is_digit CHR ''+''" "\<not> is_digit CHR ''-''"
  by (simp_all add: is_digit_def)

lemma scan_digits_all:
  "list_all is_digit ds \<Longrightarrow> ds \<noteq> [] \<Longrightarrow>
   scan_digits b n acc ds = Some (n + length ds, acc * 10 ^ length ds + decimal ds)"
proof (induction ds arbitrary: b n acc)
  case Nil
  then show ?case by simp
next
  case (Cons c cs)
  then have c: "is_digit c" "c \<noteq> CHR ''_''" and cs: "list_all is_digit cs"
    using digit_not_special by auto
  show ?case
  proof (cases "cs = []")
    case True
    with c show ?thesis by simp
  next
    case False
    with Cons.IH [OF cs False] c show ?thesis by (simp add: algebra_simps)
  qed
qed

lemma strip_digits:
  assumes "list_all is_digit ds" "ds \<noteq> []"
  shows "dropWhile py_isspace ds = ds" and "rev (dropWhile py_isspace (rev ds)) = ds"
proof -
  from assms obtain c cs where ds: "ds = c # cs" by (cases ds) auto
  with assms have "\<not> py_isspace c" using digit_not_special by auto
  with ds show "dropWhile py_isspace ds = ds" by simp
  from assms have "is_digit (last ds)" by (simp add: list_all_iff)
  then have "\<not> py_isspace (last ds)" using digit_not_special by auto
  then have "dropWhile py_isspace (rev ds) = rev ds"
    using assms(2) by (cases "rev ds") (auto simp: last_rev hd_rev dest: arg_cong [where f = hd])
  then show "rev (dropWhile py_isspace (rev ds)) = ds" by simp
qed

lemma int_of_text_unsigned:
  assumes "unsigned_literal ds = Some i" "\<not> exceeds_digit_cap rt (length ds)"
  shows "int_of_text rt ds = Inr i"
proof -
  from assms(1) have ds: "ds \<noteq> []" "list_all is_digit ds" and i: "i = int (decimal ds)"
    by (auto simp: unsigned_literal_def split: if_splits)
  then obtain c cs where c: "ds = c # cs" "is_digit c" by (cases ds) auto
  then have nosign: "hd ds \<noteq> CHR ''+''" "hd ds \<noteq> CHR ''-''" "hd ds \<noteq> CHR ''_''"
    using digit_not_special by auto
  show ?thesis
    using ds nosign assms(2) i
    by (simp add: int_of_text_def Let_def strip_digits scan_digits_all)
qed

lemma int_of_text_signed:
  assumes "unsigned_literal ds = Some i" "\<not> exceeds_digit_cap rt (length ds)"
  shows "int_of_text rt (CHR ''-'' # ds) = Inr (- i)" and "int_of_text rt (CHR ''+'' # ds) = Inr i"
proof -
  from assms(1) have ds: "ds \<noteq> []" "list_all is_digit ds" and i: "i = int (decimal ds)"
    by (auto simp: unsigned_literal_def split: if_splits)
  then obtain c cs where c: "ds = c # cs" "is_digit c" by (cases ds) auto
  then have nosign: "hd ds \<noteq> CHR ''_''"
    using digit_not_special by auto
  show "int_of_text rt (CHR ''-'' # ds) = Inr (- i)"
    using ds nosign assms(2) i
    by (simp add: int_of_text_def Let_def strip_digits scan_digits_all sign_not_space)
  show "int_of_text rt (CHR ''+'' # ds) = Inr i"
    using ds nosign assms(2) i
    by (simp add: int_of_text_def Let_def strip_digits scan_digits_all sign_not_space)
qed

lemma unsigned_literal_digits:
  "unsigned_literal ds = Some i \<Longrightarrow> filter is_digit ds = ds"
  by (auto simp: unsigned_literal_def list_all_iff split: if_splits)

lemma int_of_text_literal:
  assumes "int_literal s = Some i" "\<not> exceeds_digit_cap rt (length (filter is_digit s))"
  shows "int_of_text rt s = Inr i"
proof (cases s)
  case Nil
  with assms show ?thesis by simp
next
  case (Cons c cs)
  show ?thesis
  proof (cases "c = CHR ''-'' \<or> c = CHR ''+''")
    case True
    then obtain j where j: "unsigned_literal cs = Some j" and ij: "i = (if c = CHR ''-'' then - j else j)"
      using assms(1) Cons by (auto split: if_splits)
    have "filter is_digit s = cs"
      using True Cons unsigned_literal_digits [OF j] sign_not_digit by auto
    with assms(2) have "\<not> exceeds_digit_cap rt (length cs)" by simp
    from int_of_text_signed [OF j this] True Cons ij show ?thesis by auto
  next
    case False
    then have j: "unsigned_literal s = Some i" using assms(1) Cons by simp
    with assms(2) have "\<not> exceeds_digit_cap rt (length s)"
      using unsigned_literal_digits [OF j] by simp
    from int_of_text_unsigned [OF j this] show ?thesis .
  qed
qed




section \<open>The branches of instantiate\<close>

lemma instantiate_primitive:
  "outcome (instantiate rt reg ''str'' v) = (case py_str rt v of Inl e \<Rightarrow> Inl e | Inr p \<Rightarrow> Inr (Plain p))"
  "outcome (instantiate rt reg ''int'' v) = (case py_int rt v of Inl e \<Rightarrow> Inl e | Inr p \<Rightarrow> Inr (Plain p))"
  "outcome (instantiate rt reg ''float'' v) = (case py_float rt v of Inl e \<Rightarrow> Inl e | Inr p \<Rightarrow> Inr (Plain p))"
  "outcome (instantiate rt reg ''bool'' v) = (case py_bool rt v of Inl e \<Rightarrow> Inl e | Inr p \<Rightarrow> Inr (Plain p))"
  by (simp_all add: instantiate_def primitive_tags_def py_eval_def)

lemma primitive_tags_cases:
  "t \<in> set primitive_tags \<longleftrightarrow> t = ''str'' \<or> t = ''int'' \<or> t = ''float'' \<or> t = ''bool''"
  by (auto simp: primitive_tags_def)

section \<open>Converting a list back\<close>


section \<open>The properties of the specification, checked on the code\<close>

text \<open>
  C1, as stated, asks that for every primitive tag and every valid literal of that type
  \<^verbatim>\<open>instantiate\<close> returns the natural parse of the literal. It does not for the tag
  \<^verbatim>\<open>bool\<close> and the literal \<^verbatim>\<open>false\<close>: the natural parse is \<^verbatim>\<open>False\<close>, the code returns
  \<^verbatim>\<open>True\<close>.
\<close>

theorem C1_bool_false_counterexample:
  "''bool'' \<in> set primitive_tags
   \<and> natural_parse test_runtime ''bool'' ''false'' = Some (PBool False)
   \<and> outcome (instantiate test_runtime empty_registry ''bool'' (PStr ''false''))
       = Inr (Plain (PBool True))"
  by (simp add: primitive_tags_def natural_parse_def bool_literal_def instantiate_primitive
      py_bool_def)

text \<open>
  C1, amended. For every primitive tag and every valid literal of that type whose natural
  parse is not \<^verbatim>\<open>False\<close>, \<^verbatim>\<open>instantiate\<close> returns the natural parse of the literal, a value
  of the type that the tag names.
\<close>

theorem C1_natural_parse:
  assumes "t \<in> set primitive_tags"
    and "natural_parse rt t s = Some v"
    and "v \<noteq> PBool False"
  shows "outcome (instantiate rt reg t (PStr s)) = Inr (Plain v) \<and> type_name v = t"
proof -
  consider "t = ''str''" | "t = ''int''" | "t = ''float''" | "t = ''bool''"
    using assms(1) primitive_tags_cases by blast
  then show ?thesis
  proof cases
    case 1
    with assms(2) show ?thesis
      by (auto simp: natural_parse_def instantiate_primitive type_name_def)
  next
    case 2
    with assms(2) obtain i where i: "int_literal s = Some i" "v = PInt i"
      and cap: "\<not> exceeds_digit_cap rt (length (filter is_digit s))"
      by (auto simp: natural_parse_def split: if_splits)
    from int_of_text_literal [OF i(1) cap] i(2) 2 show ?thesis
      by (simp add: instantiate_primitive type_name_def)
  next
    case 3
    with assms(2) obtain f where "float_of_text rt s = Some f" "v = PFloat f"
      by (auto simp: natural_parse_def)
    with 3 show ?thesis
      by (simp add: instantiate_primitive type_name_def)
  next
    case 4
    with assms(2) obtain b where b: "bool_literal s = Some b" "v = PBool b"
      by (auto simp: natural_parse_def)
    with assms(3) have "b" by simp
    with b(1) have "s \<noteq> []" by (auto simp: bool_literal_def split: if_splits)
    with \<open>b\<close> b(2) 4 show ?thesis
      by (simp add: instantiate_primitive py_bool_def type_name_def)
  qed
qed

theorem C1_natural_parse_witness:
  "natural_parse test_runtime ''int'' ''42'' = Some (PInt 42)
   \<and> outcome (instantiate test_runtime empty_registry ''int'' (PStr ''42'')) = Inr (Plain (PInt 42))
   \<and> type_name (PInt 42 :: int payload) = ''int''
   \<and> natural_parse test_runtime ''bool'' ''true'' = Some (PBool True)
   \<and> outcome (instantiate test_runtime empty_registry ''bool'' (PStr ''true'')) = Inr (Plain (PBool True))"
proof -
  have a: "''int'' \<in> set primitive_tags" and b: "''bool'' \<in> set primitive_tags"
    by (simp_all add: primitive_tags_def)
  have p: "natural_parse test_runtime ''int'' ''42'' = Some (PInt 42)"
    by (simp add: natural_parse_def exceeds_digit_cap_def unsigned_literal_def is_digit_def
        digit_value_def)
  have q: "natural_parse test_runtime ''bool'' ''true'' = Some (PBool True)"
    by (simp add: natural_parse_def bool_literal_def)
  from C1_natural_parse [where reg = empty_registry, OF a p]
    C1_natural_parse [where reg = empty_registry, OF b q] p q
  show ?thesis by simp
qed




text \<open>
  C3. For a \<^verbatim>\<open>value_type\<close> that is neither one of the four primitive tags nor a key of
  \<^verbatim>\<open>CLASS_REGISTRY\<close>, \<^verbatim>\<open>instantiate\<close> fails for every payload with the error of line 56, a
  \<^verbatim>\<open>ValueError\<close> whose message is \<^verbatim>\<open>Unsupported value_type: \<close> followed by the
  unrecognized \<^verbatim>\<open>value_type\<close>; nothing is evaluated and no constructor runs.
\<close>

theorem C3_unsupported_value_type:
  assumes "t \<notin> set primitive_tags" and "reg t = None"
  shows "outcome (instantiate rt reg t v) = Inl (ValueError (Text (''Unsupported value_type: '' @ t)))
         \<and> effects (instantiate rt reg t v) = []"
  using assms by (simp add: instantiate_def unsupported_message_def)

theorem C3_unsupported_value_type_witness:
  "outcome (instantiate test_runtime empty_registry ''UnregisteredType'' (PDict [(''a'', PInt 1)]))
     = Inl (ValueError (Text ''Unsupported value_type: UnregisteredType''))
   \<and> effects (instantiate test_runtime empty_registry ''UnregisteredType'' (PDict [(''a'', PInt 1)])) = []"
proof -
  have a: "''UnregisteredType'' \<notin> set primitive_tags" by (simp add: primitive_tags_def)
  have b: "empty_registry ''UnregisteredType'' = None" by (simp add: empty_registry_def)
  from C3_unsupported_value_type
    [where reg = empty_registry and rt = test_runtime and v = "PDict [(''a'', PInt 1)]", OF a b]
  show ?thesis by simp
qed

text \<open>
  C4. For a name registered in \<^verbatim>\<open>CLASS_REGISTRY\<close> with constructor \<open>C\<close>, other than the
  four primitive tags, and a mapping \<open>m\<close> of keyword arguments, \<^verbatim>\<open>instantiate\<close> is the call
  of \<open>C\<close> with \<open>m\<close> as keyword arguments: it returns the instance that \<open>C\<close> returns, or
  raises what \<open>C\<close> raises, and \<open>C\<close> is invoked once, with \<open>m\<close>.
\<close>

theorem C4_registered_constructor:
  assumes "reg n = Some C" and "n \<notin> set primitive_tags"
  shows "outcome (instantiate rt reg n (PDict m))
           = (case C m of Inl e \<Rightarrow> Inl e | Inr obj \<Rightarrow> Inr (Instance obj))
         \<and> effects (instantiate rt reg n (PDict m)) = [Constructed n m]"
  using assms by (simp add: instantiate_def)

theorem C4_registered_constructor_witness:
  "outcome (instantiate test_runtime (empty_registry(''Foo'' \<mapsto> Foo)) ''Foo'' (PDict [(''a'', PInt 1)]))
     = Inr (Instance [(''a'', PInt 1)])
   \<and> Foo [(''a'', PInt 1)] = Inr [(''a'', PInt 1)]
   \<and> effects (instantiate test_runtime (empty_registry(''Foo'' \<mapsto> Foo)) ''Foo'' (PDict [(''a'', PInt 1)]))
     = [Constructed ''Foo'' [(''a'', PInt 1)]]"
proof -
  have a: "(empty_registry(''Foo'' \<mapsto> Foo)) ''Foo'' = Some Foo" by simp
  have b: "''Foo'' \<notin> set primitive_tags" by (simp add: primitive_tags_def)
  have c: "Foo [(''a'', PInt 1)] = Inr [(''a'', PInt 1)]" by (simp add: Foo_def)
  from C4_registered_constructor
    [where reg = "empty_registry(''Foo'' \<mapsto> Foo)" and rt = test_runtime
       and m = "[(''a'', PInt 1)]", OF a b]
  show ?thesis using c by simp
qed

text \<open>
  C5. A successfully constructed \<^verbatim>\<open>WrapperVariation\<close> holds the arguments of its
  constructor and, as \<^verbatim>\<open>instantiated_value\<close>, the result of \<^verbatim>\<open>instantiate\<close> on its
  \<^verbatim>\<open>(value_type, value)\<close> pair; these four facts determine it. The constructor has no
  argument for \<^verbatim>\<open>instantiated_value\<close>, and it fails exactly when \<^verbatim>\<open>instantiate\<close> does.
\<close>

theorem C5_instantiated_value_derived:
  "(WrapperVariation_init rt reg t v vid = Inr w
      \<longleftrightarrow> value_type w = t \<and> the_value w = v \<and> variation_id w = vid
          \<and> outcome (instantiate rt reg t v) = Inr (instantiated_value w))
   \<and> (WrapperVariation_init rt reg t v vid = Inl e \<longleftrightarrow> outcome (instantiate rt reg t v) = Inl e)"
  by (cases w) (auto simp: WrapperVariation_init_def split: sum.splits)

theorem C5_instantiated_value_derived_witness:
  "WrapperVariation_init test_runtime empty_registry ''int'' (PStr ''42'') (Some ''v1'')
     = Inr \<lparr>value_type = ''int'', the_value = PStr ''42'',
            instantiated_value = Plain (PInt 42), variation_id = Some ''v1''\<rparr>
   \<and> outcome (instantiate test_runtime empty_registry ''int'' (PStr ''42'')) = Inr (Plain (PInt 42))"
proof -
  have i: "int_of_text test_runtime ''42'' = Inr 42"
    by (simp add: int_of_text_def test_runtime_def py_isspace_def is_digit_def digit_value_def
        exceeds_digit_cap_def)
  have o: "outcome (instantiate test_runtime empty_registry ''int'' (PStr ''42'')) = Inr (Plain (PInt 42))"
    by (simp add: instantiate_primitive i)
  from C5_instantiated_value_derived
    [of test_runtime empty_registry "''int''" "PStr ''42''" "Some ''v1''"
        "\<lparr>value_type = ''int'', the_value = PStr ''42'',
          instantiated_value = Plain (PInt 42), variation_id = Some ''v1''\<rparr>"] o
  show ?thesis by simp
qed



text \<open>
  C7, as stated, asks that an \<^verbatim>\<open>ExperimentConfig\<close> with an empty \<^verbatim>\<open>variations\<close> list is
  rejected. The dataclass checks nothing: the construction succeeds and stores the empty
  list.
\<close>

theorem C7_empty_variations_counterexample:
  "(ExperimentConfig_init ''demo'' [] () None None None None None None None None None
      :: py_error + (int, int kwargs, unit, unit, unit, unit, unit) ExperimentConfig)
   = Inr \<lparr>description = ''demo'', config_variations = [], dataset = (),
          wrapper_configs = None, combinations_to_run = None, evaluators = None,
          output_config = None, human_rating_configs = [], existing_experiment_path = None,
          version = None, output_parser = None, metadata = []\<rparr>"
  by (simp add: ExperimentConfig_init_def)

text \<open>
  C7, amended. Constructing an \<^verbatim>\<open>ExperimentConfig\<close> never fails and validates nothing: for
  every \<^verbatim>\<open>variations\<close> list, the empty one too, the object is built and holds the list as it
  was given.
\<close>

theorem C7_no_validation:
  "(case ExperimentConfig_init descr vars ds wcs combos evs out hrcs path ver parser md of
      Inl e \<Rightarrow> False
    | Inr cfg \<Rightarrow> config_variations cfg = vars \<and> description cfg = descr \<and> dataset cfg = ds)"
  by (simp add: ExperimentConfig_init_def)

theorem C7_no_validation_witness:
  "config_variations
     (projr (ExperimentConfig_init ''demo'' [] () None None None None None None None None None
        :: py_error + (int, int kwargs, unit, unit, unit, unit, unit) ExperimentConfig)) = []
   \<and> isl (ExperimentConfig_init ''demo'' [] () None None None None None None None None None
        :: py_error + (int, int kwargs, unit, unit, unit, unit, unit) ExperimentConfig) = False"
  using C7_no_validation [where descr = "''demo''" and ds = "()"
      and vars = "[] :: (int, int kwargs) WrapperConfig list"
      and wcs = "None :: unit list option" and combos = None
      and evs = "None :: unit list option" and out = "None :: unit option"
      and hrcs = "None :: unit list option" and path = None and ver = None
      and parser = None and md = None]
  by (simp split: sum.splits)

text \<open>
  C8. When \<^verbatim>\<open>value_type\<close> is one of the four primitive tags, the only text handed to
  \<^verbatim>\<open>eval\<close> is that tag, whatever the payload is, and no registered constructor runs; the
  result is the one a closed dispatch table from the four tags to \<^verbatim>\<open>str\<close>, \<^verbatim>\<open>int\<close>,
  \<^verbatim>\<open>float\<close> and \<^verbatim>\<open>bool\<close> gives when its entry is applied to the payload.
\<close>

theorem C8_payload_never_evaluated:
  assumes "t \<in> set primitive_tags"
  shows "effects (instantiate rt reg t v) = [Evaluated t]
         \<and> closed_dispatch t rt v = Some (outcome (instantiate rt reg t v))"
  using assms
  by (auto simp: instantiate_def primitive_tags_def py_eval_def closed_dispatch_def dispatch_table_def)

theorem C8_payload_never_evaluated_witness:
  "effects (instantiate test_runtime empty_registry ''str'' (PStr ''__import__(\"os\").system(\"id\")''))
     = [Evaluated ''str'']
   \<and> outcome (instantiate test_runtime empty_registry ''str'' (PStr ''__import__(\"os\").system(\"id\")''))
     = Inr (Plain (PStr ''__import__(\"os\").system(\"id\")''))"
proof -
  have a: "''str'' \<in> set primitive_tags" by (simp add: primitive_tags_def)
  from C8_payload_never_evaluated
    [where reg = empty_registry and rt = test_runtime
       and v = "PStr ''__import__(\"os\").system(\"id\")''", OF a]
  show ?thesis by (simp add: instantiate_primitive)
qed

text \<open>
  C9. For \<^verbatim>\<open>value_type\<close> \<^verbatim>\<open>bool\<close>, \<^verbatim>\<open>instantiate\<close> returns \<^verbatim>\<open>True\<close> for every non-empty text,
  so for the text \<^verbatim>\<open>false\<close> too, and it returns \<^verbatim>\<open>False\<close> exactly when the payload is falsy,
  as the empty text is.
\<close>

theorem C9_bool_is_truthiness:
  "(s \<noteq> [] \<longrightarrow> outcome (instantiate rt reg ''bool'' (PStr s)) = Inr (Plain (PBool True)))
   \<and> outcome (instantiate rt reg ''bool'' (PStr ''false'')) = Inr (Plain (PBool True))
   \<and> outcome (instantiate rt reg ''bool'' (PStr [])) = Inr (Plain (PBool False))
   \<and> (outcome (instantiate rt reg ''bool'' v) = Inr (Plain (PBool False)) \<longleftrightarrow> falsy rt v)
   \<and> (outcome (instantiate rt reg ''bool'' v) = Inr (Plain (PBool True)) \<longleftrightarrow> \<not> falsy rt v)"
  by (cases v) (simp_all add: instantiate_primitive py_bool_def falsy_def)

theorem C9_bool_is_truthiness_witness:
  "''no'' \<noteq> []
   \<and> outcome (instantiate test_runtime empty_registry ''bool'' (PStr ''no'')) = Inr (Plain (PBool True))
   \<and> outcome (instantiate test_runtime empty_registry ''bool'' (PStr ''false'')) = Inr (Plain (PBool True))
   \<and> outcome (instantiate test_runtime empty_registry ''bool'' (PInt 0)) = Inr (Plain (PBool False))
   \<and> falsy test_runtime (PInt 0)"
  using C9_bool_is_truthiness [of "''no''" test_runtime empty_registry "PInt 0"]
  by (simp add: falsy_def)



end
